theory Spec2Isabelle
  imports Complex_Main
begin

section \<open>Common conventions\<close>

text \<open>
  JavaScript numbers that carry money (order values, discounts, prices) are read as the
  rational numbers they denote and the arithmetic on them as exact; counters are natural
  numbers, stock levels and quantities are integers, and a \<open>Date\<close> is its number of
  milliseconds since the epoch. A Mongo \<open>ObjectId\<close> is the string \<open>toString()\<close> gives for
  it. A field that may be \<open>null\<close> or \<open>undefined\<close> is an \<open>option\<close>. Every call of
  \<open>new Date()\<close> or \<open>Date.now()\<close> is an explicit argument of the function that makes it.
\<close>

datatype error = TypeError

text \<open>\<open>Math.round\<close>: the nearest integer, a tie going towards plus infinity.\<close>

definition Math_round :: "rat \<Rightarrow> int" where
  "Math_round x = \<lfloor>x + 1 / 2\<rfloor>"

text \<open>Truthiness of a string that may be \<open>null\<close>: \<open>null\<close> and the empty string are falsy.\<close>

definition truthy_str :: "string option \<Rightarrow> bool" where
  "truthy_str s = (case s of None \<Rightarrow> False | Some v \<Rightarrow> v \<noteq> [])"

section \<open>The coupon entity\<close>

datatype coupon_type = Percentage | Fixed | FreeShipping

record used_entry =
  u_user :: "string option"
  u_usedAt :: int
  u_orderValue :: rat

record coupon =
  code :: string
  description :: "string option"
  c_type :: coupon_type
  c_value :: rat
  minOrderValue :: rat
  maxDiscount :: "rat option"
  maxUses :: "nat option"
  maxUsesPerUser :: nat
  usedCount :: nat
  usedBy :: "used_entry list"
  applicableProducts :: "string list"
  applicableCategories :: "string list"
  excludedProducts :: "string list"
  isActive :: bool
  isPublic :: bool
  startDate :: int
  expiresAt :: int
  createdBy :: string

record cart_item =
  product :: "string option"
  category :: "string option"

text \<open>
  A message is one of the string literals of the source, or the template literal of the
  minimum-order check, which carries the coupon's \<open>minOrderValue\<close>.
\<close>

datatype message = Text string | MinimumOrderValueRequired rat

record validation =
  valid :: bool
  message :: message

subsection \<open>validate\<close>

text \<open>
  \<open>this.usedBy.filter(u => u.user.toString() === userId).length\<close>: the callback runs on
  every entry, and \<open>u.user.toString()\<close> throws a TypeError on an entry without a user.
\<close>

fun userUses :: "used_entry list \<Rightarrow> string \<Rightarrow> error + nat" where
  "userUses [] uid = Inr 0"
| "userUses (u # us) uid =
     (case u_user u of
        None \<Rightarrow> Inl TypeError
      | Some v \<Rightarrow>
          (case userUses us uid of
             Inl e \<Rightarrow> Inl e
           | Inr n \<Rightarrow> Inr (if v = uid then Suc n else n)))"

text \<open>
  \<open>ids.some(p => p.toString() === item.product.toString())\<close>: on an empty array the
  callback never runs; otherwise its first run evaluates \<open>item.product.toString()\<close>, which
  throws when the item has no product.
\<close>

definition some_id :: "string list \<Rightarrow> string option \<Rightarrow> error + bool" where
  "some_id ids p =
     (if ids = [] then Inr False
      else case p of None \<Rightarrow> Inl TypeError | Some q \<Rightarrow> Inr (q \<in> set ids))"

text \<open>\<open>this.applicableCategories.includes(item.category)\<close>; no string equals \<open>undefined\<close>.\<close>

definition includes_category :: "string list \<Rightarrow> string option \<Rightarrow> bool" where
  "includes_category cs k = (case k of None \<Rightarrow> False | Some v \<Rightarrow> v \<in> set cs)"

text \<open>The callback of \<open>cartItems.some\<close>: the three constants are computed in this order.\<close>

definition applicableItem :: "coupon \<Rightarrow> cart_item \<Rightarrow> error + bool" where
  "applicableItem c item =
     (case some_id (applicableProducts c) (product item) of
        Inl e \<Rightarrow> Inl e
      | Inr productMatch \<Rightarrow>
          (let categoryMatch = includes_category (applicableCategories c) (category item)
           in case some_id (excludedProducts c) (product item) of
                Inl e \<Rightarrow> Inl e
              | Inr isExcluded \<Rightarrow> Inr ((productMatch \<or> categoryMatch) \<and> \<not> isExcluded)))"

text \<open>\<open>Array.prototype.some\<close> with a callback that may throw: it stops at the first hit.\<close>

fun some_e :: "('a \<Rightarrow> error + bool) \<Rightarrow> 'a list \<Rightarrow> error + bool" where
  "some_e f [] = Inr False"
| "some_e f (x # xs) =
     (case f x of
        Inl e \<Rightarrow> Inl e
      | Inr b \<Rightarrow> if b then Inr True else some_e f xs)"

definition invalid :: "string \<Rightarrow> validation" where
  "invalid m = \<lparr>valid = False, message = Text m\<rparr>"

text \<open>
  The per-user check: \<open>if (userId) { ... userUses >= this.maxUsesPerUser ... }\<close>. The
  result says whether the limit is reached; \<open>null\<close> and the empty string skip the check.
\<close>

definition userLimitReached :: "coupon \<Rightarrow> string option \<Rightarrow> error + bool" where
  "userLimitReached c userId =
     (case userId of
        None \<Rightarrow> Inr False
      | Some uid \<Rightarrow>
          if uid = [] then Inr False
          else (case userUses (usedBy c) uid of
                  Inl e \<Rightarrow> Inl e
                | Inr n \<Rightarrow> Inr (n \<ge> maxUsesPerUser c)))"

definition validate ::
  "coupon \<Rightarrow> int \<Rightarrow> rat \<Rightarrow> string option \<Rightarrow> cart_item list \<Rightarrow> error + validation" where
  "validate c now orderValue userId cartItems =
     (if \<not> isActive c then Inr (invalid ''This coupon is not active'')
      else if now > expiresAt c then Inr (invalid ''This coupon has expired'')
      else if now < startDate c then Inr (invalid ''This coupon is not yet valid'')
      else if (case maxUses c of None \<Rightarrow> False | Some m \<Rightarrow> m \<noteq> 0 \<and> usedCount c \<ge> m)
        then Inr (invalid ''This coupon has been fully redeemed'')
      else
        (case userLimitReached c userId of
           Inl e \<Rightarrow> Inl e
         | Inr limitReached \<Rightarrow>
             if limitReached
             then Inr (invalid
               ''You have already used this coupon the maximum number of times'')
             else if orderValue < minOrderValue c
             then Inr \<lparr>valid = False,
                       message = MinimumOrderValueRequired (minOrderValue c)\<rparr>
             else if applicableProducts c \<noteq> [] \<or> applicableCategories c \<noteq> []
             then (case some_e (applicableItem c) cartItems of
                     Inl e \<Rightarrow> Inl e
                   | Inr hasApplicableItem \<Rightarrow>
                       if \<not> hasApplicableItem
                       then Inr (invalid
                         ''This coupon is not applicable to your cart items'')
                       else Inr \<lparr>valid = True, message = Text ''Coupon is valid''\<rparr>)
             else Inr \<lparr>valid = True, message = Text ''Coupon is valid''\<rparr>))"

subsection \<open>calculateDiscount\<close>

definition calculateDiscount :: "coupon \<Rightarrow> rat \<Rightarrow> rat" where
  "calculateDiscount c orderValue =
     (let discount =
        (case c_type c of
           Percentage \<Rightarrow>
             (let d = (orderValue * c_value c) / 100
              in case maxDiscount c of
                   None \<Rightarrow> d
                 | Some m \<Rightarrow> if m \<noteq> 0 \<and> d > m then m else d)
         | Fixed \<Rightarrow> min (c_value c) orderValue
         | FreeShipping \<Rightarrow> 0)
      in of_int (Math_round (discount * 100)) / 100)"

subsection \<open>apply\<close>

text \<open>
  \<open>usedAt\<close> is not given in the pushed object: the schema's default (\<open>Date.now\<close>) fills
  it in, here the argument \<open>now\<close>.
\<close>

definition apply_coupon :: "coupon \<Rightarrow> int \<Rightarrow> string option \<Rightarrow> rat \<Rightarrow> coupon" where
  "apply_coupon c now userId orderValue =
     (let c1 = c\<lparr>usedCount := usedCount c + 1\<rparr>
      in if truthy_str userId
         then c1\<lparr>usedBy := usedBy c1 @
                 [\<lparr>u_user = userId, u_usedAt = now, u_orderValue = orderValue\<rparr>]\<rparr>
         else c1)"

section \<open>The order entity\<close>

record order_item =
  oi_product :: string
  oi_name :: string
  oi_image :: string
  oi_price :: rat
  oi_quantity :: int
  oi_size :: string
  oi_color :: string

record shipping_address =
  firstName :: string
  lastName :: string
  email :: string
  phone :: string
  address :: string
  city :: string
  state :: string
  zipCode :: string
  country :: string

record payment_result =
  pr_id :: "string option"
  pr_status :: "string option"
  pr_update_time :: "string option"
  pr_email_address :: "string option"

record history_entry =
  h_status :: string
  h_date :: int
  h_note :: string

text \<open>
  \<open>status\<close> is a string: the enum of the schema is checked when the document is saved,
  not by the methods. \<open>orderNumber\<close> is \<open>undefined\<close> until the save hook sets it.
  \<open>isNew\<close> is the flag Mongoose keeps on every document: true from \<open>new Order(...)\<close>
  until the first successful save, false on a document read from the collection.
\<close>

record order =
  o_user :: string
  orderNumber :: "string option"
  orderItems :: "order_item list"
  shippingAddress :: shipping_address
  paymentMethod :: string
  paymentResult :: "payment_result option"
  itemsPrice :: rat
  taxPrice :: rat
  shippingPrice :: rat
  totalPrice :: rat
  discountAmount :: rat
  couponCode :: string
  isPaid :: bool
  paidAt :: "int option"
  isDelivered :: bool
  deliveredAt :: "int option"
  status :: string
  trackingNumber :: string
  shippingCarrier :: string
  o_notes :: "string option"
  statusHistory :: "history_entry list"
  isNew :: bool

subsection \<open>updateStatus\<close>

text \<open>
  \<open>note\<close> is \<open>None\<close> when the caller passes \<open>undefined\<close>, and the default \<open>''\<close> applies.
  The two \<open>new Date()\<close> of the method are \<open>t1\<close> (history entry) and \<open>t2\<close> (deliveredAt).
\<close>

definition updateStatus :: "order \<Rightarrow> string \<Rightarrow> string option \<Rightarrow> int \<Rightarrow> int \<Rightarrow> order" where
  "updateStatus this newStatus note t1 t2 =
     (let o1 = this\<lparr>status := newStatus\<rparr>;
          o2 = o1\<lparr>statusHistory := statusHistory o1 @
                 [\<lparr>h_status = newStatus, h_date = t1,
                   h_note = (case note of None \<Rightarrow> [] | Some n \<Rightarrow> n)\<rparr>]\<rparr>
      in if newStatus = ''delivered''
         then o2\<lparr>isDelivered := True, deliveredAt := Some t2\<rparr>
         else o2)"

subsection \<open>The save hook\<close>






section \<open>The collections and the order routes\<close>













subsection \<open>POST /api/orders\<close>








subsection \<open>PUT /api/orders/:id/cancel\<close>



section \<open>Method calls, the specification's wording, and example data\<close>

text \<open>
  \<open>validate\<close> and \<open>calculateDiscount\<close> assign to no field of \<open>this\<close> and call only
  \<open>filter\<close>, \<open>some\<close>, \<open>includes\<close> and \<open>toString\<close>, which modify nothing. As method calls
  that return their result together with the receiver after the call, they are:
\<close>

definition validate_call ::
  "coupon \<Rightarrow> int \<Rightarrow> rat \<Rightarrow> string option \<Rightarrow> cart_item list \<Rightarrow> (error + validation) \<times> coupon" where
  "validate_call this now orderValue userId cartItems =
     (validate this now orderValue userId cartItems, this)"

definition calculateDiscount_call :: "coupon \<Rightarrow> rat \<Rightarrow> rat \<times> coupon" where
  "calculateDiscount_call this orderValue = (calculateDiscount this orderValue, this)"






definition example_coupon :: coupon where
  "example_coupon =
     \<lparr>code = ''SAVE20'', description = None, c_type = Percentage, c_value = 20,
      minOrderValue = 0, maxDiscount = Some 10, maxUses = None, maxUsesPerUser = 1,
      usedCount = 0, usedBy = [], applicableProducts = [], applicableCategories = [],
      excludedProducts = [], isActive = True, isPublic = True, startDate = 0,
      expiresAt = 1000, createdBy = ''admin''\<rparr>"

definition example_address :: shipping_address where
  "example_address =
     \<lparr>firstName = ''Ada'', lastName = ''Byron'', email = ''ada@example.org'',
      phone = ''5550100'', address = ''12 Long Lane'', city = ''Springfield'',
      state = ''OR'', zipCode = ''97477'', country = ''United States''\<rparr>"

definition example_order :: order where
  "example_order =
     \<lparr>o_user = ''u1'', orderNumber = Some ''INK17000000000000001'',
      orderItems = [\<lparr>oi_product = ''p1'', oi_name = ''Tee'', oi_image = [], oi_price = 10,
                     oi_quantity = 2, oi_size = ''M'', oi_color = ''Black''\<rparr>],
      shippingAddress = example_address, paymentMethod = ''stripe'',
      paymentResult = None, itemsPrice = 20, taxPrice = 0, shippingPrice = 0,
      totalPrice = 20, discountAmount = 0, couponCode = [], isPaid = True,
      paidAt = Some 50, isDelivered = False, deliveredAt = None, status = ''processing'',
      trackingNumber = [], shippingCarrier = [], o_notes = None,
      statusHistory = [\<lparr>h_status = ''pending'', h_date = 10, h_note = ''Order created''\<rparr>,
                       \<lparr>h_status = ''processing'', h_date = 50, h_note = ''Payment received''\<rparr>],
      isNew = False\<rparr>"






section \<open>Coupon validation\<close>










text \<open>
  Claim C8. \<open>validate\<close> does throw. With a user id given, a \<open>usedBy\<close> entry without a
  user makes \<open>u.user.toString()\<close> a TypeError; with \<open>applicableProducts\<close> set, a cart item
  without a product makes \<open>item.product.toString()\<close> one.
\<close>

theorem validate_throws:
  "validate (example_coupon\<lparr>usedBy := [\<lparr>u_user = None, u_usedAt = 5, u_orderValue = 40\<rparr>]\<rparr>)
     10 100 (Some ''u1'') [] = Inl TypeError \<and>
   validate (example_coupon\<lparr>applicableProducts := [''p1'']\<rparr>)
     10 100 None [\<lparr>product = None, category = Some ''tees''\<rparr>] = Inl TypeError"
  by (simp add: validate_def example_coupon_def userLimitReached_def applicableItem_def
        some_id_def)

theorem validate_throws_witness:
  "isl (validate (example_coupon\<lparr>usedBy := [\<lparr>u_user = None, u_usedAt = 5, u_orderValue = 40\<rparr>]\<rparr>)
          10 100 (Some ''u1'') []) \<and>
   isl (validate (example_coupon\<lparr>applicableProducts := [''p1'']\<rparr>)
          10 100 None [\<lparr>product = None, category = Some ''tees''\<rparr>])"
  using validate_throws by simp

section \<open>Discount calculation\<close>














section \<open>What the coupon methods change\<close>

text \<open>
  Claim C10. \<open>validate\<close> and \<open>calculateDiscount\<close> leave the coupon as it was. \<open>apply\<close>
  adds exactly 1 to \<open>usedCount\<close>, appends one \<open>usedBy\<close> entry when a user id is given
  (a truthy one) and none otherwise, and changes no other field.
\<close>

theorem coupon_frame:
  "snd (validate_call this now orderValue userId cartItems) = this \<and>
   snd (calculateDiscount_call this orderValue) = this \<and>
   usedCount (apply_coupon this now userId orderValue) = usedCount this + 1 \<and>
   usedBy (apply_coupon this now userId orderValue) =
     (if truthy_str userId
      then usedBy this @ [\<lparr>u_user = userId, u_usedAt = now, u_orderValue = orderValue\<rparr>]
      else usedBy this) \<and>
   (apply_coupon this now userId orderValue)
     \<lparr>usedCount := usedCount this, usedBy := usedBy this\<rparr> = this"
  by (simp add: validate_call_def calculateDiscount_call_def apply_coupon_def Let_def)

theorem coupon_frame_witness:
  "usedCount (apply_coupon example_coupon 10 (Some ''u1'') 100) = 1 \<and>
   usedBy (apply_coupon example_coupon 10 (Some ''u1'') 100) =
     [\<lparr>u_user = Some ''u1'', u_usedAt = 10, u_orderValue = 100\<rparr>] \<and>
   usedCount (apply_coupon example_coupon 10 None 100) = 1 \<and>
   usedBy (apply_coupon example_coupon 10 None 100) = [] \<and>
   snd (validate_call example_coupon 10 100 (Some ''u1'') []) = example_coupon"
  using coupon_frame[of example_coupon 10 100 "Some ''u1''" "[]"]
        coupon_frame[of example_coupon 10 100 None "[]"]
  by (simp add: example_coupon_def truthy_str_def)

section \<open>Order status\<close>

text \<open>
  Claim C4. \<open>updateStatus\<close> sets the status, appends exactly one history entry with that
  status, the time and the note, and keeps the entries before it; for \<open>delivered\<close> it
  sets \<open>isDelivered\<close> and \<open>deliveredAt\<close>; for any other status these two keep their
  values; \<open>isPaid\<close>, \<open>paidAt\<close> and every other field are never changed.
\<close>

theorem updateStatus_effect:
  "status (updateStatus this s note t1 t2) = s \<and>
   statusHistory (updateStatus this s note t1 t2) =
     statusHistory this @
       [\<lparr>h_status = s, h_date = t1, h_note = (case note of None \<Rightarrow> [] | Some n \<Rightarrow> n)\<rparr>] \<and>
   (s = ''delivered'' \<longrightarrow>
      isDelivered (updateStatus this s note t1 t2) \<and>
      deliveredAt (updateStatus this s note t1 t2) = Some t2) \<and>
   (s \<noteq> ''delivered'' \<longrightarrow>
      isDelivered (updateStatus this s note t1 t2) = isDelivered this \<and>
      deliveredAt (updateStatus this s note t1 t2) = deliveredAt this) \<and>
   isPaid (updateStatus this s note t1 t2) = isPaid this \<and>
   paidAt (updateStatus this s note t1 t2) = paidAt this \<and>
   (updateStatus this s note t1 t2)
     \<lparr>status := status this, statusHistory := statusHistory this,
      isDelivered := isDelivered this, deliveredAt := deliveredAt this\<rparr> = this"
  by (simp add: updateStatus_def Let_def)

theorem updateStatus_effect_witness:
  "isDelivered (updateStatus example_order ''delivered'' (Some ''Left at door'') 70 71) \<and>
   deliveredAt (updateStatus example_order ''delivered'' (Some ''Left at door'') 70 71) = Some 71 \<and>
   length (statusHistory (updateStatus example_order ''delivered'' (Some ''Left at door'') 70 71)) = 3 \<and>
   \<not> isDelivered (updateStatus example_order ''cancelled'' None 70 71) \<and>
   isPaid (updateStatus example_order ''cancelled'' None 70 71)"
  using updateStatus_effect[of example_order "''delivered''" "Some ''Left at door''" 70 71]
        updateStatus_effect[of example_order "''cancelled''" None 70 71]
  by (simp add: example_order_def)

section \<open>The save hook\<close>













section \<open>Cancelling an order\<close>





section \<open>Creating an order\<close>






end
